theory Spec2Isabelle
  imports Main "HOL-Library.Sublist"
begin

section \<open>JavaScript string operations used by the server configuration\<close>

text \<open>
  Strings are character lists. \<open>indexOf\<close> and \<open>lastIndexOf\<close> give the position of
  the first and of the last occurrence of a substring, or \<open>-1\<close> when there is none;
  \<open>substring\<close> clamps both positions to the string and swaps them when they are
  out of order, as \<open>String.prototype.substring\<close> does.
\<close>

fun indexOf :: "string \<Rightarrow> string \<Rightarrow> int" where
  "indexOf [] sub = (if sub = [] then 0 else - 1)"
| "indexOf (c # cs) sub =
     (if prefix sub (c # cs) then 0
      else (let i = indexOf cs sub in if i < 0 then - 1 else i + 1))"

fun lastIndexOf :: "string \<Rightarrow> string \<Rightarrow> int" where
  "lastIndexOf [] sub = (if sub = [] then 0 else - 1)"
| "lastIndexOf (c # cs) sub =
     (let i = lastIndexOf cs sub in
      if 0 \<le> i then i + 1 else if prefix sub (c # cs) then 0 else - 1)"

definition substring :: "string \<Rightarrow> int \<Rightarrow> int \<Rightarrow> string" where
  "substring s start stop =
     (let len = int (length s);
          a = max 0 (min start len);
          b = max 0 (min stop len);
          lo = min a b;
          hi = max a b
      in take (nat (hi - lo)) (drop (nat lo) s))"

text \<open>\<open>s.substring(start)\<close>, with the end left out, runs to the end of the string.\<close>

definition substring_from :: "string \<Rightarrow> int \<Rightarrow> string" where
  "substring_from s start = substring s start (int (length s))"

text \<open>\<open>s.split(sep)\<close> for a separator of one character.\<close>

fun js_split :: "string \<Rightarrow> char \<Rightarrow> string list" where
  "js_split [] sep = [[]]"
| "js_split (c # cs) sep =
     (if c = sep then [] # js_split cs sep
      else (case js_split cs sep of
              [] \<Rightarrow> [[c]]
            | w # ws \<Rightarrow> (c # w) # ws))"

text \<open>\<open>array.indexOf(x)\<close>: the first position holding \<open>x\<close>, or \<open>-1\<close>.\<close>

fun array_indexOf :: "'a list \<Rightarrow> 'a \<Rightarrow> int" where
  "array_indexOf [] x = - 1"
| "array_indexOf (y # ys) x =
     (if y = x then 0
      else (let i = array_indexOf ys x in if i < 0 then - 1 else i + 1))"

subsection \<open>The helpers module\<close>

text \<open>
  Modelled from the spec: \<open>starts_with\<close> of \<open>./helpers\<close>, which is imported by
  the server configuration and is not among the sources. The specification uses it as
  "\<open>request\<close> starts with \<open>pattern + "/"\<close>".
\<close>

definition starts_with :: "string \<Rightarrow> string \<Rightarrow> bool" where
  "starts_with s sub = prefix sub s"

text \<open>
  Modelled from the spec: \<open>ends_with\<close> of \<open>./helpers\<close>, not among the sources.
  The specification uses it to recognise "a trailing \<open>-loader\<close> suffix".
\<close>

definition ends_with :: "string \<Rightarrow> string \<Rightarrow> bool" where
  "ends_with s sub = suffix sub s"

section \<open>The externals predicate\<close>

text \<open>
  An exclusion pattern of \<open>settings.exclude_from_externals\<close> is a JavaScript value:
  a string, a regular expression, or anything else. A regular expression is represented
  by what its \<open>test\<close> method answers on a request. Any other value is represented by
  what interpolating it into the error message does: \<open>Some text\<close> when the value is
  converted to the string \<open>text\<close> (\<open>42\<close> for the number 42), and \<open>None\<close> when
  the conversion throws a \<open>TypeError\<close>, as it does for a symbol and for an object
  that has no \<open>toString\<close>.
\<close>

datatype exclusion_pattern =
    PString string
  | PRegExp "string \<Rightarrow> bool"
  | POther "string option"

text \<open>
  What is thrown: an \<open>Error\<close> made by the configuration with its message, or the
  \<open>TypeError\<close> of the language.
\<close>

datatype error = Error string | TypeError

text \<open>
  \<open>webpack_configuration.resolve\<close> with its \<open>alias\<close> object (the field is written
  \<open>resolve_alias\<close>, \<open>alias\<close> being a reserved word here). An object is the list of
  its own keys with their values, in the order \<open>Object.keys\<close> gives them.
\<close>

record resolve_options =
  resolve_alias :: "(string \<times> string) list option"

record webpack_configuration =
  resolve :: "resolve_options option"

record settings =
  exclude_from_externals :: "exclusion_pattern list option"

text \<open>Lines 205 to 209: the part of the request before its first slash.\<close>

definition package_name :: "string \<Rightarrow> string" where
  "package_name request =
     (if 0 \<le> indexOf request ''/''
      then substring request 0 (indexOf request ''/'')
      else request)"

text \<open>
  The loop over \<open>Object.keys(webpack_configuration.resolve.alias)\<close>. The result
  \<open>Some b\<close> stands for \<open>return b\<close> and \<open>None\<close> for leaving the loop at its end.
\<close>

fun alias_loop :: "string \<Rightarrow> string list \<Rightarrow> bool option" where
  "alias_loop pkg [] = None"
| "alias_loop pkg (a # as) = (if pkg = a then Some False else alias_loop pkg as)"

text \<open>
  Lines 222 to 234: the loop runs only when \<open>resolve\<close> and \<open>resolve.alias\<close> are
  there.
\<close>

definition alias_check :: "webpack_configuration \<Rightarrow> string \<Rightarrow> bool option" where
  "alias_check webpack_configuration pkg =
     (case resolve webpack_configuration of
        None \<Rightarrow> None
      | Some r \<Rightarrow>
          (case resolve_alias r of
             None \<Rightarrow> None
           | Some table \<Rightarrow> alias_loop pkg (map fst table)))"

text \<open>
  Line 262: the template literal is evaluated before the \<open>Error\<close> is made, so a
  pattern that cannot be converted to a string throws the \<open>TypeError\<close> of the
  conversion instead.
\<close>

definition invalid_pattern :: "string option \<Rightarrow> error" where
  "invalid_pattern v =
     (case v of
        None \<Rightarrow> TypeError
      | Some text \<Rightarrow>
          Error (''Invalid exclusion pattern: '' @ text
                 @ ''. Only strings and regular expressions are allowed.''))"

text \<open>The loop over \<open>settings.exclude_from_externals\<close>; \<open>Inl\<close> is what is thrown.\<close>

fun exclusion_loop :: "string \<Rightarrow> exclusion_pattern list \<Rightarrow> error + bool option" where
  "exclusion_loop request [] = Inr None"
| "exclusion_loop request (PString p # ps) =
     (if request = p \<or> starts_with request (p @ ''/'')
      then Inr (Some False)
      else exclusion_loop request ps)"
| "exclusion_loop request (PRegExp regexp # ps) =
     (if regexp request then Inr (Some False) else exclusion_loop request ps)"
| "exclusion_loop request (POther v # ps) = Inl (invalid_pattern v)"

text \<open>
  \<open>is_external\<close>. The first argument is \<open>validForNewPackages\<close> of the
  \<open>validate-npm-package-name\<close> package, an npm dependency that is taken as a
  parameter. The result \<open>Inr True\<close> says that the dependency is external.
\<close>

definition is_external ::
  "(string \<Rightarrow> bool) \<Rightarrow> string \<Rightarrow> webpack_configuration \<Rightarrow> settings \<Rightarrow> error + bool" where
  "is_external validForNewPackages request webpack_configuration settings =
     (if \<not> validForNewPackages (package_name request) then Inr False
      else
        (case alias_check webpack_configuration (package_name request) of
           Some b \<Rightarrow> Inr b
         | None \<Rightarrow>
             (case exclude_from_externals settings of
                None \<Rightarrow> Inr True
              | Some patterns \<Rightarrow>
                  (case exclusion_loop request patterns of
                     Inl e \<Rightarrow> Inl e
                   | Inr (Some b) \<Rightarrow> Inr b
                   | Inr None \<Rightarrow> Inr True))))"

section \<open>Loader chains\<close>

text \<open>
  \<open>querystring\<close> is a module of Node and is taken as a parameter: its \<open>parse\<close>
  turns a query string into a query object and its \<open>stringify\<close> turns a query object
  into a query string. The type \<open>'q\<close> is the type of query objects.
\<close>

record 'q querystring =
  parse :: "string \<Rightarrow> 'q"
  stringify :: "'q \<Rightarrow> string"

text \<open>
  An element of a \<open>loaders\<close> array is a string such as \<open>css-loader?modules\<close>, or
  an object with a \<open>loader\<close> string and, optionally, a \<open>query\<close> object.
\<close>

datatype 'q loader_spec =
    LString (the_string: string)
  | LObject (object_loader: string) (object_query: "'q option")

text \<open>
  Modelled from the spec: \<open>is_object\<close> of \<open>./helpers\<close>, not among the sources.
  The specification uses it as "the input is already a structured object".
\<close>

fun is_object :: "'q loader_spec \<Rightarrow> bool" where
  "is_object (LObject l q) = True"
| "is_object (LString s) = False"

text \<open>
  What \<open>if (style_loader)\<close> tests: an object is truthy, a string is truthy unless it
  is empty.
\<close>

fun truthy :: "'q loader_spec \<Rightarrow> bool" where
  "truthy (LObject l q) = True"
| "truthy (LString s) = (s \<noteq> [])"

text \<open>The result of \<open>parse_loader\<close>; an absent \<open>query\<close> is \<open>None\<close>.\<close>

record 'q loader_info =
  name :: string
  query :: "'q option"

text \<open>
  \<open>parse_loader\<close>, lines 151 to 179. In the string branch the variable \<open>name\<close> is
  assigned its part before the question mark first, and the query is then read from
  that new value of \<open>name\<close>: \<open>name1\<close> below.
\<close>

definition parse_loader :: "'q querystring \<Rightarrow> 'q loader_spec \<Rightarrow> 'q loader_info" where
  "parse_loader querystring loader =
     (if is_object loader
      then \<lparr>name = object_loader loader, query = object_query loader\<rparr>
      else
        (let name0 = the_string loader in
         if 0 \<le> indexOf name0 ''?''
         then
           (let name1 = substring name0 0 (indexOf name0 ''?'');
                query1 = parse querystring
                           (substring_from name1 (indexOf name1 ''?'' + 1))
            in \<lparr>name = name1, query = Some query1\<rparr>)
         else \<lparr>name = name0, query = None\<rparr>))"

text \<open>\<open>stringify_loader\<close>, lines 182 to 185. A query object, when there, is truthy.\<close>

definition stringify_loader :: "'q querystring \<Rightarrow> 'q loader_info \<Rightarrow> string" where
  "stringify_loader querystring loader =
     name loader @
     (case query loader of
        Some q \<Rightarrow> ''?'' @ stringify querystring q
      | None \<Rightarrow> [])"

text \<open>\<open>is_style_loader\<close>, lines 188 to 198.\<close>

definition is_style_loader :: "'q querystring \<Rightarrow> 'q loader_spec \<Rightarrow> bool" where
  "is_style_loader querystring loader =
     (let name0 = name (parse_loader querystring loader);
          name1 = (if ends_with name0 ''-loader''
                   then substring name0 0 (lastIndexOf name0 ''-loader'')
                   else name0)
      in name1 = ''style'')"

text \<open>
  Lines 95 to 109 of \<open>configuration\<close>, on the array \<open>loader.loaders\<close>: the first
  element that \<open>filter(is_style_loader)\<close> keeps is parsed, renamed, and written back
  as a string at the position \<open>indexOf\<close> gives. (An assignment at position \<open>-1\<close>
  would leave the elements of the array as they are.) Elements are compared by value:
  an element equal to a style loader is a style loader too, so the first position that
  holds an equal element is the position of the first style loader itself
  (\<open>replace_style_loader_first\<close> below).
\<close>

definition replace_style_loader ::
  "'q querystring \<Rightarrow> 'q loader_spec list \<Rightarrow> 'q loader_spec list" where
  "replace_style_loader querystring chain =
     (case filter (is_style_loader querystring) chain of
        [] \<Rightarrow> chain
      | style_loader # others \<Rightarrow>
          if truthy style_loader
          then
            (let fake_style_loader =
                   (parse_loader querystring style_loader)\<lparr>name := ''fake-style-loader''\<rparr>;
                 i = array_indexOf chain style_loader
             in if 0 \<le> i
                then chain[nat i := LString (stringify_loader querystring fake_style_loader)]
                else chain)
          else chain)"

text \<open>
  An element of \<open>configuration.module.loaders\<close>: an object that may have a
  \<open>loader\<close> string and may have a \<open>loaders\<close> array. Its other fields (\<open>test\<close>,
  \<open>include\<close> and so on) are the extension of the record.
\<close>

record 'q module_loader =
  loader :: "string option"
  loaders :: "'q loader_spec list option"

text \<open>
  The body of the loop over \<open>configuration.module.loaders\<close>, lines 72 to 110, for one
  element; the result is the element as the loop leaves it. An element with a
  \<open>loaders\<close> array skips lines 75 to 93 and goes to the substitution at once.
  Otherwise an absent \<open>loader\<close> and an empty one are both falsy and throw,
  \<open>continue\<close> leaves the element as it is, and in the last case \<open>loaders\<close> is set
  to the split string, \<open>loader\<close> is deleted, and the substitution follows.
\<close>

definition configuration_loader ::
  "'q querystring \<Rightarrow> ('q, 'm) module_loader_scheme
     \<Rightarrow> error + ('q, 'm) module_loader_scheme" where
  "configuration_loader querystring l =
     (case loaders l of
        Some chain \<Rightarrow>
          Inr (l\<lparr>loaders := Some (replace_style_loader querystring chain)\<rparr>)
      | None \<Rightarrow>
          (case loader l of
             None \<Rightarrow>
               Inl (Error ''No webpack loader specified for this `module.loaders` element'')
           | Some s \<Rightarrow>
               if s = []
               then Inl (Error ''No webpack loader specified for this `module.loaders` element'')
               else if 0 \<le> indexOf s ''extract-text-webpack-plugin/loader.js''
               then Inr l
               else
                 Inr (l\<lparr>loaders :=
                           Some (replace_style_loader querystring
                                   (map LString (js_split s CHR ''!''))),
                         loader := None\<rparr>)))"

text \<open>The loop itself: it stops at the first element that throws.\<close>

fun configuration_loaders ::
  "'q querystring \<Rightarrow> ('q, 'm) module_loader_scheme list
     \<Rightarrow> error + ('q, 'm) module_loader_scheme list" where
  "configuration_loaders querystring [] = Inr []"
| "configuration_loaders querystring (l # ls) =
     (case configuration_loader querystring l of
        Inl e \<Rightarrow> Inl e
      | Inr l' \<Rightarrow>
          (case configuration_loaders querystring ls of
             Inl e \<Rightarrow> Inl e
           | Inr ls' \<Rightarrow> Inr (l' # ls')))"

subsection \<open>A query string module for the examples\<close>

text \<open>
  Node's \<open>querystring\<close> on the strings of the examples below: keys and values made of
  characters that are not escaped, no empty segment and no key given twice. A query
  object is the list of its keys with their values. \<open>parse\<close> cuts at every \<open>&\<close>
  and then at the first \<open>=\<close> of each segment, a segment with no \<open>=\<close> being a
  key with the empty value; \<open>stringify\<close> writes \<open>key=value\<close> joined by \<open>&\<close>.
\<close>

definition querystring_parse :: "string \<Rightarrow> (string \<times> string) list" where
  "querystring_parse s =
     (if s = [] then []
      else map (\<lambda>segment.
                  (takeWhile (\<lambda>c. c \<noteq> CHR ''='') segment,
                   drop 1 (dropWhile (\<lambda>c. c \<noteq> CHR ''='') segment)))
               (js_split s CHR ''&''))"

fun querystring_stringify :: "(string \<times> string) list \<Rightarrow> string" where
  "querystring_stringify [] = []"
| "querystring_stringify [(k, v)] = k @ ''='' @ v"
| "querystring_stringify ((k, v) # kvs) = k @ ''='' @ v @ ''&'' @ querystring_stringify kvs"

definition node_querystring :: "(string \<times> string) list querystring" where
  "node_querystring = \<lparr>parse = querystring_parse, stringify = querystring_stringify\<rparr>"

section \<open>Properties of the string operations\<close>

lemma indexOf_char:
  "indexOf s [c] =
     (if c \<in> set s then int (length (takeWhile (\<lambda>x. x \<noteq> c) s)) else - 1)"
  by (induction s) (auto simp: Let_def)

lemma substring_take: "substring s 0 n = take (nat n) s"
  by (auto simp: substring_def Let_def min_def max_def)

lemma package_name_takeWhile:
  "package_name request = takeWhile (\<lambda>c. c \<noteq> CHR ''/'') request"
proof (cases "CHR ''/'' \<in> set request")
  case True
  then have "package_name request =
      take (length (takeWhile (\<lambda>c. c \<noteq> CHR ''/'') request)) request"
    by (simp add: package_name_def indexOf_char substring_take)
  then show ?thesis
    by (simp only: takeWhile_eq_take [symmetric])
next
  case False
  then have whole: "takeWhile (\<lambda>c. c \<noteq> CHR ''/'') request = request"
    by auto
  from False have "package_name request = request"
    by (simp add: package_name_def indexOf_char)
  then show ?thesis
    by (simp only: whole)
qed

lemma alias_loop_Some: "alias_loop pkg ks = Some b \<longleftrightarrow> pkg \<in> set ks \<and> \<not> b"
  by (induction ks) auto

lemma alias_loop_None: "alias_loop pkg ks = None \<longleftrightarrow> pkg \<notin> set ks"
  by (induction ks) auto

subsection \<open>The two loops of the externals predicate\<close>

lemma exclusion_loop_match:
  assumes "\<forall>q\<in>set pre. \<forall>v. q \<noteq> POther v"
    and "(\<exists>p. m = PString p \<and> (request = p \<or> prefix (p @ ''/'') request))
         \<or> (\<exists>re. m = PRegExp re \<and> re request)"
  shows "exclusion_loop request (pre @ m # post) = Inr (Some False)"
  using assms
proof (induction pre)
  case Nil
  then show ?case by (auto simp: starts_with_def)
next
  case (Cons q pre)
  then show ?case by (cases q) auto
qed

lemma exclusion_loop_None:
  "exclusion_loop request ps = Inr None \<longleftrightarrow>
     (\<forall>q\<in>set ps. (\<exists>p. q = PString p \<and> request \<noteq> p \<and> \<not> prefix (p @ ''/'') request)
                 \<or> (\<exists>re. q = PRegExp re \<and> \<not> re request))"
proof (induction ps)
  case Nil
  then show ?case by simp
next
  case (Cons q ps)
  then show ?case by (cases q) (auto simp: starts_with_def)
qed

lemma exclusion_loop_passes:
  assumes "\<forall>q\<in>set pre. (\<exists>p. q = PString p \<and> request \<noteq> p \<and> \<not> prefix (p @ ''/'') request)
                 \<or> (\<exists>re. q = PRegExp re \<and> \<not> re request)"
  shows "exclusion_loop request (pre @ rest) = exclusion_loop request rest"
  using assms
proof (induction pre)
  case Nil
  then show ?case by simp
next
  case (Cons q pre)
  then show ?case by (cases q) (auto simp: starts_with_def)
qed

lemma alias_check_None:
  "alias_check cfg pkg = None \<longleftrightarrow>
   (\<forall>r table. resolve cfg = Some r \<and> resolve_alias r = Some table
        \<longrightarrow> pkg \<notin> fst ` set table)"
  by (auto simp: alias_check_def alias_loop_None split: option.splits)

lemma alias_check_Some: "alias_check cfg pkg = Some b \<Longrightarrow> \<not> b"
  by (auto simp: alias_check_def alias_loop_Some split: option.splits)

lemma exclusion_loop_Inl_D:
  "exclusion_loop request ps = Inl err \<Longrightarrow>
     \<exists>pre v post. ps = pre @ POther v # post \<and>
        (\<forall>q\<in>set pre. (\<exists>p. q = PString p \<and> request \<noteq> p \<and> \<not> prefix (p @ ''/'') request)
                 \<or> (\<exists>re. q = PRegExp re \<and> \<not> re request)) \<and>
        err = invalid_pattern v"
proof (induction ps)
  case Nil
  then show ?case by simp
next
  case (Cons q ps)
  show ?case
  proof (cases q)
    case (PString p)
    with Cons.prems have nm: "request \<noteq> p" "\<not> prefix (p @ ''/'') request"
      and rest: "exclusion_loop request ps = Inl err"
      by (auto simp: starts_with_def split: if_splits)
    from Cons.IH [OF rest] obtain pre v post where
      "ps = pre @ POther v # post"
      "\<forall>q\<in>set pre. (\<exists>p. q = PString p \<and> request \<noteq> p \<and> \<not> prefix (p @ ''/'') request)
                 \<or> (\<exists>re. q = PRegExp re \<and> \<not> re request)"
      "err = invalid_pattern v"
      by blast
    with nm PString show ?thesis
      by (intro exI [of _ "q # pre"] exI [of _ v] exI [of _ post]) simp
  next
    case (PRegExp re)
    with Cons.prems have nm: "\<not> re request"
      and rest: "exclusion_loop request ps = Inl err"
      by (auto split: if_splits)
    from Cons.IH [OF rest] obtain pre v post where
      "ps = pre @ POther v # post"
      "\<forall>q\<in>set pre. (\<exists>p. q = PString p \<and> request \<noteq> p \<and> \<not> prefix (p @ ''/'') request)
                 \<or> (\<exists>re. q = PRegExp re \<and> \<not> re request)"
      "err = invalid_pattern v"
      by blast
    with nm PRegExp show ?thesis
      by (intro exI [of _ "q # pre"] exI [of _ v] exI [of _ post]) simp
  next
    case (POther v)
    with Cons.prems show ?thesis
      by (intro exI [of _ "[]"] exI [of _ v] exI [of _ ps]) auto
  qed
qed

text \<open>When \<open>is_external\<close> throws, and what it throws.\<close>

lemma is_external_Inl_iff:
  "is_external valid request webpack_configuration settings = Inl err \<longleftrightarrow>
     valid (package_name request) \<and>
     (\<forall>r table. resolve webpack_configuration = Some r \<and> resolve_alias r = Some table
        \<longrightarrow> package_name request \<notin> fst ` set table) \<and>
     (\<exists>pre v post.
        exclude_from_externals settings = Some (pre @ POther v # post) \<and>
        (\<forall>q\<in>set pre.
           (\<exists>p. q = PString p \<and> request \<noteq> p \<and> \<not> prefix (p @ ''/'') request)
           \<or> (\<exists>re. q = PRegExp re \<and> \<not> re request)) \<and>
        err = invalid_pattern v)"
  (is "?L \<longleftrightarrow> ?V \<and> ?A \<and> ?R")
proof
  assume l: ?L
  then have v: ?V
    by (auto simp: is_external_def split: if_splits)
  from l v have al: "alias_check webpack_configuration (package_name request) = None"
    by (auto simp: is_external_def split: option.splits)
  then have a: ?A
    by (simp only: alias_check_None)
  from l v al obtain ps where ps: "exclude_from_externals settings = Some ps"
    and loop: "exclusion_loop request ps = Inl err"
    by (auto simp: is_external_def split: option.splits sum.splits)
  from exclusion_loop_Inl_D [OF loop] ps have ?R
    by auto
  with v a show "?V \<and> ?A \<and> ?R"
    by blast
next
  assume r: "?V \<and> ?A \<and> ?R"
  then have al: "alias_check webpack_configuration (package_name request) = None"
    unfolding alias_check_None by blast
  from r obtain pre v post where
    ps: "exclude_from_externals settings = Some (pre @ POther v # post)"
    and pre: "\<forall>q\<in>set pre.
           (\<exists>p. q = PString p \<and> request \<noteq> p \<and> \<not> prefix (p @ ''/'') request)
           \<or> (\<exists>re. q = PRegExp re \<and> \<not> re request)"
    and err: "err = invalid_pattern v"
    by blast
  have "exclusion_loop request (pre @ POther v # post) = Inl err"
    by (simp add: exclusion_loop_passes [OF pre] err)
  with r al ps show ?L
    by (simp add: is_external_def)
qed

section \<open>Claims about the externals predicate\<close>

text \<open>
  C1. The package name of a request is the request up to its first slash, or the whole
  request when it has no slash; whenever that name fails the package name validation,
  \<open>is_external\<close> returns false, for every alias table and every exclusion list.
\<close>

theorem C1_invalid_package_name_is_internal:
  "package_name request = takeWhile (\<lambda>c. c \<noteq> CHR ''/'') request \<and>
   (\<not> valid (takeWhile (\<lambda>c. c \<noteq> CHR ''/'') request) \<longrightarrow>
      is_external valid request webpack_configuration settings = Inr False)"
  by (simp add: package_name_takeWhile is_external_def)

theorem C1_witness:
  "package_name ''./foo/bar'' = ''.'' \<and>
   is_external (\<lambda>name. name \<noteq> ''.'') ''./foo/bar''
     \<lparr>resolve = None\<rparr> \<lparr>exclude_from_externals = Some [POther (Some ''42'')]\<rparr> = Inr False"
  using C1_invalid_package_name_is_internal
    [of "''./foo/bar''" "\<lambda>name. name \<noteq> ''.''" "\<lparr>resolve = None\<rparr>"
        "\<lparr>exclude_from_externals = Some [POther (Some ''42'')]\<rparr>"]
  by simp

text \<open>
  C2. When the package name of a request (the request up to its first slash) is a key
  of the alias table of the configuration, \<open>is_external\<close> returns false, whatever
  the validity check and the exclusion list are.
\<close>

theorem C2_aliased_package_name_is_internal:
  assumes "resolve webpack_configuration = Some r"
    and "resolve_alias r = Some table"
    and "takeWhile (\<lambda>c. c \<noteq> CHR ''/'') request \<in> fst ` set table"
  shows "is_external valid request webpack_configuration settings = Inr False"
proof -
  from assms(3) have "alias_loop (package_name request) (map fst table) = Some False"
    by (simp add: package_name_takeWhile alias_loop_Some)
  with assms(1,2) show ?thesis
    by (simp add: is_external_def alias_check_def)
qed

theorem C2_witness:
  "is_external (\<lambda>name. True) ''app/components''
     \<lparr>resolve = Some \<lparr>resolve_alias = Some [(''app'', ''/project/src'')]\<rparr>\<rparr>
     \<lparr>exclude_from_externals = None\<rparr> = Inr False"
  by (rule C2_aliased_package_name_is_internal
        [of _ "\<lparr>resolve_alias = Some [(''app'', ''/project/src'')]\<rparr>"
            "[(''app'', ''/project/src'')]"]) simp_all

text \<open>
  C3, as stated, fails: with the exclusion list \<open>[42, "lodash"]\<close> the request
  \<open>lodash\<close> equals the second pattern, yet the loop throws at the first one.
\<close>

theorem C3_counterexample:
  "is_external (\<lambda>name. True) ''lodash'' \<lparr>resolve = None\<rparr>
     \<lparr>exclude_from_externals = Some [POther (Some ''42''), PString ''lodash'']\<rparr> =
   Inl (Error ''Invalid exclusion pattern: 42. Only strings and regular expressions are allowed.'')"
  by (simp add: is_external_def alias_check_def invalid_pattern_def)

text \<open>
  C3, amended. When the exclusion list holds a pattern that is a string equal to the
  request, or a string \<open>p\<close> such that the request starts with \<open>p\<close> followed by a
  slash, or a regular expression that tests true on the request, and no pattern before
  it in the list is something other than a string or a regular expression, then
  \<open>is_external\<close> returns false. The full request is what is matched.
\<close>

theorem C3_exclusion_match_is_internal:
  assumes "exclude_from_externals settings = Some (pre @ m # post)"
    and "\<forall>q\<in>set pre. \<forall>v. q \<noteq> POther v"
    and "(\<exists>p. m = PString p \<and> (request = p \<or> prefix (p @ ''/'') request))
         \<or> (\<exists>re. m = PRegExp re \<and> re request)"
  shows "is_external valid request webpack_configuration settings = Inr False"
proof -
  have loop: "exclusion_loop request (pre @ m # post) = Inr (Some False)"
    using assms(2,3) by (rule exclusion_loop_match)
  show ?thesis
  proof (cases "alias_check webpack_configuration (package_name request)")
    case None
    with loop assms(1) show ?thesis
      by (simp add: is_external_def)
  next
    case (Some b)
    then have "\<not> b"
      by (rule alias_check_Some)
    with Some show ?thesis
      by (simp add: is_external_def)
  qed
qed

theorem C3_witness:
  "is_external (\<lambda>name. True) ''lodash/merge'' \<lparr>resolve = None\<rparr>
     \<lparr>exclude_from_externals =
        Some [PRegExp (\<lambda>r. r = ''react''), PString ''lodash'', POther (Some ''42'')]\<rparr> = Inr False"
  by (rule C3_exclusion_match_is_internal
        [of _ "[PRegExp (\<lambda>r. r = ''react'')]" "PString ''lodash''" "[POther (Some ''42'')]"])
     simp_all

text \<open>
  C4, as stated, fails: with the exclusion list \<open>[42]\<close> the request \<open>lodash\<close> has
  a valid name, no alias and matches no pattern, yet \<open>is_external\<close> throws.
\<close>

theorem C4_counterexample:
  "is_external (\<lambda>name. True) ''lodash'' \<lparr>resolve = None\<rparr>
     \<lparr>exclude_from_externals = Some [POther (Some ''42'')]\<rparr> =
   Inl (Error ''Invalid exclusion pattern: 42. Only strings and regular expressions are allowed.'')"
  by (simp add: is_external_def alias_check_def invalid_pattern_def)

text \<open>
  C4, amended. When the package name of the request is valid and is no key of the alias
  table, and every pattern of the exclusion list is a string or a regular expression
  that does not match the request, \<open>is_external\<close> returns true. In particular,
  with the alias table absent or empty and the exclusion list absent or empty, every
  request with a valid package name is external.
\<close>

theorem C4_unmatched_request_is_external:
  "(valid (package_name request) \<and>
    (\<forall>r table. resolve webpack_configuration = Some r \<and> resolve_alias r = Some table
        \<longrightarrow> package_name request \<notin> fst ` set table) \<and>
    (\<forall>ps. exclude_from_externals settings = Some ps \<longrightarrow>
        (\<forall>q\<in>set ps.
           (\<exists>p. q = PString p \<and> request \<noteq> p \<and> \<not> prefix (p @ ''/'') request)
           \<or> (\<exists>re. q = PRegExp re \<and> \<not> re request)))
    \<longrightarrow> is_external valid request webpack_configuration settings = Inr True)
   \<and>
   (valid (package_name request) \<and>
    (resolve webpack_configuration = None
       \<or> resolve webpack_configuration = Some \<lparr>resolve_alias = None\<rparr>
       \<or> resolve webpack_configuration = Some \<lparr>resolve_alias = Some []\<rparr>) \<and>
    (exclude_from_externals settings = None \<or> exclude_from_externals settings = Some [])
    \<longrightarrow> is_external valid request webpack_configuration settings = Inr True)"
  (is "(?A \<longrightarrow> ?ext) \<and> (?B \<longrightarrow> ?ext)")
proof (intro conjI impI)
  assume a: ?A
  then have al: "alias_check webpack_configuration (package_name request) = None"
    unfolding alias_check_None by blast
  from a have "\<And>ps. exclude_from_externals settings = Some ps \<Longrightarrow>
      exclusion_loop request ps = Inr None"
    by (simp only: exclusion_loop_None) blast
  with a al show ?ext
    by (simp add: is_external_def split: option.splits)
next
  assume b: ?B
  then show ?ext
    by (auto simp: is_external_def alias_check_def)
qed

theorem C4_witness:
  "is_external (\<lambda>name. True) ''lodash/merge''
     \<lparr>resolve = Some \<lparr>resolve_alias = Some [(''app'', ''/project/src'')]\<rparr>\<rparr>
     \<lparr>exclude_from_externals = Some [PString ''react'', PRegExp (\<lambda>r. r = ''lodash'')]\<rparr>
     = Inr True \<and>
   is_external (\<lambda>name. True) ''lodash/merge'' \<lparr>resolve = None\<rparr>
     \<lparr>exclude_from_externals = Some []\<rparr> = Inr True"
  using C4_unmatched_request_is_external
    [of "\<lambda>name. True" "''lodash/merge''"
        "\<lparr>resolve = Some \<lparr>resolve_alias = Some [(''app'', ''/project/src'')]\<rparr>\<rparr>"
        "\<lparr>exclude_from_externals = Some [PString ''react'', PRegExp (\<lambda>r. r = ''lodash'')]\<rparr>"]
    C4_unmatched_request_is_external
    [of "\<lambda>name. True" "''lodash/merge''" "\<lparr>resolve = None\<rparr>"
        "\<lparr>exclude_from_externals = Some []\<rparr>"]
  by (simp add: package_name_takeWhile)

text \<open>
  C5, as stated, fails: a pattern that is neither a string nor a regular expression and
  that cannot be converted to a string (a symbol, an object without \<open>toString\<close>) makes
  line 262 throw the \<open>TypeError\<close> of the conversion, which names no pattern.
\<close>

theorem C5_counterexample:
  "is_external (\<lambda>name. True) ''lodash'' \<lparr>resolve = None\<rparr>
     \<lparr>exclude_from_externals = Some [POther None]\<rparr> = Inl TypeError"
  by (simp add: is_external_def alias_check_def invalid_pattern_def)

text \<open>
  C5, amended. \<open>is_external\<close> throws exactly when the package name is valid, is no
  alias key, and the loop over the exclusion list reaches a pattern that is neither a
  string nor a regular expression, every pattern before it being a string or a regular
  expression that does not match the request; so nothing is thrown once the validity
  check, the alias check or an earlier pattern has decided. It throws the error
  \<open>Invalid exclusion pattern\<close> with a given message exactly when, in addition, the
  pattern reached can be converted to a string and the message names it.
\<close>

theorem C5_error_iff_invalid_pattern_reached:
  "((\<exists>err. is_external valid request webpack_configuration settings = Inl err) \<longleftrightarrow>
     valid (package_name request) \<and>
     (\<forall>r table. resolve webpack_configuration = Some r \<and> resolve_alias r = Some table
        \<longrightarrow> package_name request \<notin> fst ` set table) \<and>
     (\<exists>pre v post.
        exclude_from_externals settings = Some (pre @ POther v # post) \<and>
        (\<forall>q\<in>set pre.
           (\<exists>p. q = PString p \<and> request \<noteq> p \<and> \<not> prefix (p @ ''/'') request)
           \<or> (\<exists>re. q = PRegExp re \<and> \<not> re request))))
   \<and>
   (is_external valid request webpack_configuration settings = Inl (Error message) \<longleftrightarrow>
     valid (package_name request) \<and>
     (\<forall>r table. resolve webpack_configuration = Some r \<and> resolve_alias r = Some table
        \<longrightarrow> package_name request \<notin> fst ` set table) \<and>
     (\<exists>pre text post.
        exclude_from_externals settings = Some (pre @ POther (Some text) # post) \<and>
        (\<forall>q\<in>set pre.
           (\<exists>p. q = PString p \<and> request \<noteq> p \<and> \<not> prefix (p @ ''/'') request)
           \<or> (\<exists>re. q = PRegExp re \<and> \<not> re request)) \<and>
        message = ''Invalid exclusion pattern: '' @ text
                  @ ''. Only strings and regular expressions are allowed.''))"
proof (intro conjI)
  show "(\<exists>err. is_external valid request webpack_configuration settings = Inl err) \<longleftrightarrow>
     valid (package_name request) \<and>
     (\<forall>r table. resolve webpack_configuration = Some r \<and> resolve_alias r = Some table
        \<longrightarrow> package_name request \<notin> fst ` set table) \<and>
     (\<exists>pre v post.
        exclude_from_externals settings = Some (pre @ POther v # post) \<and>
        (\<forall>q\<in>set pre.
           (\<exists>p. q = PString p \<and> request \<noteq> p \<and> \<not> prefix (p @ ''/'') request)
           \<or> (\<exists>re. q = PRegExp re \<and> \<not> re request)))"
    unfolding is_external_Inl_iff by blast
next
  have named: "invalid_pattern v = Error message \<longleftrightarrow>
      (\<exists>text. v = Some text \<and>
         message = ''Invalid exclusion pattern: '' @ text
                   @ ''. Only strings and regular expressions are allowed.'')" for v
    by (cases v) (auto simp: invalid_pattern_def)
  have flip: "Error message = invalid_pattern v \<longleftrightarrow> invalid_pattern v = Error message" for v
    by (rule eq_commute)
  show "is_external valid request webpack_configuration settings = Inl (Error message) \<longleftrightarrow>
     valid (package_name request) \<and>
     (\<forall>r table. resolve webpack_configuration = Some r \<and> resolve_alias r = Some table
        \<longrightarrow> package_name request \<notin> fst ` set table) \<and>
     (\<exists>pre text post.
        exclude_from_externals settings = Some (pre @ POther (Some text) # post) \<and>
        (\<forall>q\<in>set pre.
           (\<exists>p. q = PString p \<and> request \<noteq> p \<and> \<not> prefix (p @ ''/'') request)
           \<or> (\<exists>re. q = PRegExp re \<and> \<not> re request)) \<and>
        message = ''Invalid exclusion pattern: '' @ text
                  @ ''. Only strings and regular expressions are allowed.'')"
    unfolding is_external_Inl_iff flip named by blast
qed

theorem C5_witness:
  "is_external (\<lambda>name. True) ''lodash''
     \<lparr>resolve = Some \<lparr>resolve_alias = Some [(''app'', ''/project/src'')]\<rparr>\<rparr>
     \<lparr>exclude_from_externals =
        Some [PString ''react'', POther (Some ''42''), PString ''lodash'']\<rparr>
   = Inl (Error ''Invalid exclusion pattern: 42. Only strings and regular expressions are allowed.'')"
proof -
  have "\<exists>pre text post.
      [PString ''react'', POther (Some ''42''), PString ''lodash'']
        = pre @ POther (Some text) # post \<and>
      (\<forall>q\<in>set pre.
         (\<exists>p. q = PString p \<and> ''lodash'' \<noteq> p \<and> \<not> prefix (p @ ''/'') ''lodash'')
         \<or> (\<exists>re. q = PRegExp re \<and> \<not> re ''lodash'')) \<and>
      ''Invalid exclusion pattern: 42. Only strings and regular expressions are allowed.''
        = ''Invalid exclusion pattern: '' @ text
          @ ''. Only strings and regular expressions are allowed.''"
    by (intro exI [of _ "[PString ''react'']"] exI [of _ "''42''"]
              exI [of _ "[PString ''lodash'']"]) simp
  then show ?thesis
    using C5_error_iff_invalid_pattern_reached
      [of "\<lambda>name. True" "''lodash''"
          "\<lparr>resolve = Some \<lparr>resolve_alias = Some [(''app'', ''/project/src'')]\<rparr>\<rparr>"
          "\<lparr>exclude_from_externals =
             Some [PString ''react'', POther (Some ''42''), PString ''lodash'']\<rparr>"
          "''Invalid exclusion pattern: 42. Only strings and regular expressions are allowed.''"]
    by (simp add: package_name_takeWhile)
qed

section \<open>Properties of loader chains\<close>

text \<open>
  What \<open>parse_loader\<close> computes on a string: with a question mark in it, the query is
  parsed from the name, the text behind the question mark being dropped.
\<close>

lemma parse_loader_string:
  "parse_loader qs (LString s) =
     (if CHR ''?'' \<in> set s
      then \<lparr>name = takeWhile (\<lambda>c. c \<noteq> CHR ''?'') s,
            query = Some (parse qs (takeWhile (\<lambda>c. c \<noteq> CHR ''?'') s))\<rparr>
      else \<lparr>name = s, query = None\<rparr>)"
proof (cases "CHR ''?'' \<in> set s")
  case True
  let ?n = "takeWhile (\<lambda>c. c \<noteq> CHR ''?'') s"
  have n: "substring s 0 (indexOf s ''?'') = ?n"
    using True by (simp add: indexOf_char substring_take takeWhile_eq_take [symmetric])
  have "CHR ''?'' \<notin> set ?n"
    by (auto dest: set_takeWhileD)
  then have "indexOf ?n ''?'' = - 1"
    by (simp add: indexOf_char)
  then have "substring_from ?n (indexOf ?n ''?'' + 1) = ?n"
    by (simp add: substring_from_def substring_take)
  with True n show ?thesis
    by (simp add: parse_loader_def Let_def indexOf_char)
next
  case False
  then show ?thesis
    by (simp add: parse_loader_def Let_def indexOf_char)
qed

lemma indexOf_sublist: "0 \<le> indexOf s sub \<longleftrightarrow> sublist sub s"
  by (induction s) (auto simp: Let_def sublist_Cons_right)

lemma array_indexOf_first:
  "x \<notin> set pre \<Longrightarrow> array_indexOf (pre @ x # post) x = int (length pre)"
  by (induction pre) (auto simp: Let_def)

lemma filter_first:
  "\<forall>l\<in>set pre. \<not> P l \<Longrightarrow> P x \<Longrightarrow> filter P (pre @ x # post) = x # filter P post"
  by (induction pre) auto

lemma parse_loader_name_take:
  "\<exists>k. name (parse_loader qs (LString str)) = take k str"
proof (cases "0 \<le> indexOf str ''?''")
  case True
  then have "name (parse_loader qs (LString str)) = take (nat (indexOf str ''?'')) str"
    by (simp add: parse_loader_def Let_def substring_take)
  then show ?thesis by blast
next
  case False
  then have "name (parse_loader qs (LString str)) = take (length str) str"
    by (simp add: parse_loader_def Let_def)
  then show ?thesis by blast
qed

lemma style_name_take:
  assumes "is_style_loader qs l"
  shows "\<exists>j. take j (name (parse_loader qs l)) = ''style''"
proof (cases "ends_with (name (parse_loader qs l)) ''-loader''")
  case True
  with assms have "take (nat (lastIndexOf (name (parse_loader qs l)) ''-loader''))
                     (name (parse_loader qs l)) = ''style''"
    by (simp add: is_style_loader_def Let_def substring_take)
  then show ?thesis by blast
next
  case False
  with assms have "name (parse_loader qs l) = ''style''"
    by (simp add: is_style_loader_def Let_def)
  then have "take 5 (name (parse_loader qs l)) = ''style''"
    by simp
  then show ?thesis by blast
qed

lemma is_style_loader_prefix:
  assumes "is_style_loader qs (LString str)"
  shows "\<exists>rest. str = ''style'' @ rest"
proof -
  obtain k where k: "name (parse_loader qs (LString str)) = take k str"
    using parse_loader_name_take by blast
  from style_name_take [OF assms] obtain j where
    "take j (name (parse_loader qs (LString str))) = ''style''"
    by blast
  with k have "take (min j k) str = ''style''"
    by simp
  then have "str = ''style'' @ drop (min j k) str"
    by (metis append_take_drop_id)
  then show ?thesis by blast
qed

lemma is_style_loader_truthy: "is_style_loader qs l \<Longrightarrow> truthy l"
proof (cases l)
  case (LString str)
  assume "is_style_loader qs l"
  with LString obtain rest where "str = ''style'' @ rest"
    using is_style_loader_prefix by blast
  with LString show ?thesis by simp
next
  case (LObject n q)
  then show ?thesis by simp
qed

lemma fake_style_loader_differs:
  assumes "is_style_loader qs l"
  shows "LString (stringify_loader qs ((parse_loader qs l)\<lparr>name := ''fake-style-loader''\<rparr>)) \<noteq> l"
proof (cases l)
  case (LString str)
  with assms obtain rest where "str = ''style'' @ rest"
    using is_style_loader_prefix by blast
  with LString show ?thesis
    by (simp add: stringify_loader_def)
next
  case (LObject n q)
  then show ?thesis by simp
qed

lemma replace_style_loader_none:
  "\<forall>l\<in>set chain. \<not> is_style_loader qs l \<Longrightarrow> replace_style_loader qs chain = chain"
proof -
  assume "\<forall>l\<in>set chain. \<not> is_style_loader qs l"
  then have "filter (is_style_loader qs) chain = []"
    by (simp add: filter_empty_conv)
  then show ?thesis
    by (simp add: replace_style_loader_def)
qed

lemma replace_style_loader_first:
  assumes "\<forall>l\<in>set pre. \<not> is_style_loader qs l" and "is_style_loader qs s"
  shows "replace_style_loader qs (pre @ s # post) =
           pre @ LString (stringify_loader qs
                    ((parse_loader qs s)\<lparr>name := ''fake-style-loader''\<rparr>)) # post"
proof -
  from assms have notin: "s \<notin> set pre"
    by blast
  have f: "filter (is_style_loader qs) (pre @ s # post) = s # filter (is_style_loader qs) post"
    using assms by (rule filter_first)
  have t: "truthy s"
    using assms(2) by (rule is_style_loader_truthy)
  show ?thesis
    unfolding replace_style_loader_def f
    by (simp add: t array_indexOf_first [OF notin] Let_def)
qed

lemma length_replace_style_loader:
  "length (replace_style_loader qs chain) = length chain"
  by (simp add: replace_style_loader_def Let_def split: list.splits)

lemma replace_style_loader_unchanged_iff:
  "replace_style_loader qs chain = chain \<longleftrightarrow> (\<forall>l\<in>set chain. \<not> is_style_loader qs l)"
proof
  assume same: "replace_style_loader qs chain = chain"
  show "\<forall>l\<in>set chain. \<not> is_style_loader qs l"
  proof (rule ccontr)
    assume "\<not> (\<forall>l\<in>set chain. \<not> is_style_loader qs l)"
    then have "\<exists>l\<in>set chain. is_style_loader qs l"
      by blast
    from split_list_first_prop [OF this] obtain pre s post where
      split: "chain = pre @ s # post" and s: "is_style_loader qs s"
      and pre: "\<forall>l\<in>set pre. \<not> is_style_loader qs l"
      by blast
    from replace_style_loader_first [OF pre s, of post] same split
    have "LString (stringify_loader qs
             ((parse_loader qs s)\<lparr>name := ''fake-style-loader''\<rparr>)) = s"
      by simp
    with fake_style_loader_differs [OF s] show False
      by blast
  qed
next
  assume "\<forall>l\<in>set chain. \<not> is_style_loader qs l"
  then show "replace_style_loader qs chain = chain"
    by (rule replace_style_loader_none)
qed

text \<open>
  When the loop over \<open>module.loaders\<close> does not throw, it has treated every element
  on its own and kept the order.
\<close>

lemma configuration_loaders_pointwise:
  "configuration_loaders qs ls = Inr ls' \<Longrightarrow>
     length ls' = length ls \<and>
     (\<forall>i<length ls. configuration_loader qs (ls ! i) = Inr (ls' ! i))"
proof (induction ls arbitrary: ls')
  case Nil
  then show ?case by simp
next
  case (Cons l ls)
  from Cons.prems obtain l' rest where
    l': "configuration_loader qs l = Inr l'"
    and rest: "configuration_loaders qs ls = Inr rest"
    and ls': "ls' = l' # rest"
    by (auto split: sum.splits)
  from Cons.IH [OF rest] l' ls' show ?case
    by (auto simp: nth_Cons split: nat.splits)
qed

section \<open>Claims about loader chains\<close>

text \<open>
  C6, the code at a failing input. Writing the loader \<open>style-loader\<close> with the query
  \<open>{modules: "true"}\<close> as a string and parsing the string back does not return the
  query: for every query string module and every query \<open>q\<close> the result holds the
  parse of the name, and with Node's module that is \<open>{"style-loader": ""}\<close>.
\<close>

theorem C6_parse_after_stringify_loses_query:
  "parse_loader qs (LString (stringify_loader qs
      \<lparr>name = ''style-loader'', query = Some q\<rparr>)) =
     \<lparr>name = ''style-loader'', query = Some (parse qs ''style-loader'')\<rparr>
   \<and>
   parse_loader node_querystring (LString (stringify_loader node_querystring
      \<lparr>name = ''style-loader'', query = Some [(''modules'', ''true'')]\<rparr>)) =
     \<lparr>name = ''style-loader'', query = Some [(''style-loader'', [])]\<rparr>"
  by (simp add: parse_loader_string stringify_loader_def node_querystring_def
        querystring_parse_def)

text \<open>
  C7, the code at the failing input. For the loader string
  \<open>style-loader?modules=true\<close> the loop writes the chain with the single element
  \<open>fake-style-loader?\<close> followed by the query string of the parsed name
  \<open>style-loader\<close>, whatever the query string module is; with Node's module that is
  \<open>fake-style-loader?style-loader=\<close>, and \<open>modules=true\<close> is lost.
\<close>

theorem C7_style_loader_query_is_lost:
  "configuration_loader qs
      \<lparr>loader = Some ''style-loader?modules=true'', loaders = None\<rparr> =
     Inr \<lparr>loader = None,
          loaders = Some [LString (''fake-style-loader?''
                                   @ stringify qs (parse qs ''style-loader''))]\<rparr>
   \<and>
   configuration_loader node_querystring
      \<lparr>loader = Some ''style-loader?modules=true'', loaders = None\<rparr> =
     Inr \<lparr>loader = None,
          loaders = Some [LString ''fake-style-loader?style-loader='']\<rparr>"
  by (simp add: configuration_loader_def replace_style_loader_def is_style_loader_def
        parse_loader_string stringify_loader_def node_querystring_def querystring_parse_def
        ends_with_def substring_take Let_def suffix_def)

text \<open>
  C8, as stated, fails: in the chain of \<open>style-loader!css-loader!style\<close> the third
  element is a style loader and is left as it is; only the first one is replaced.
\<close>

theorem C8_counterexample:
  "configuration_loader node_querystring
      \<lparr>loader = Some ''style-loader!css-loader!style'', loaders = None\<rparr> =
     Inr \<lparr>loader = None,
          loaders = Some [LString ''fake-style-loader'', LString ''css-loader'',
                          LString ''style'']\<rparr>
   \<and> is_style_loader node_querystring (LString ''style'')"
  by (simp add: configuration_loader_def replace_style_loader_def is_style_loader_def
        parse_loader_string stringify_loader_def ends_with_def substring_take Let_def
        suffix_def)

text \<open>
  C8, amended. The substitution replaces the first element of the chain that is a style
  loader, at its position, by a string that differs from it, and leaves every other
  element, the order and the length of the chain as they are; a chain with no style
  loader is unchanged. The string \<open>babel-loader!style-loader!css-loader\<close> is split
  into three elements in their order, and only the middle one is replaced.
\<close>

theorem C8_first_style_loader_is_replaced:
  "((\<forall>l\<in>set pre. \<not> is_style_loader qs l) \<and> is_style_loader qs s \<longrightarrow>
      replace_style_loader qs (pre @ s # post) =
        pre @ LString (stringify_loader qs
                 ((parse_loader qs s)\<lparr>name := ''fake-style-loader''\<rparr>)) # post
      \<and> LString (stringify_loader qs
            ((parse_loader qs s)\<lparr>name := ''fake-style-loader''\<rparr>)) \<noteq> s)
   \<and> ((\<forall>l\<in>set chain. \<not> is_style_loader qs l) \<longrightarrow>
        replace_style_loader qs chain = chain)
   \<and> length (replace_style_loader qs chain) = length chain
   \<and> js_split ''babel-loader!style-loader!css-loader'' CHR ''!'' =
        [''babel-loader'', ''style-loader'', ''css-loader'']
   \<and> configuration_loader qs
        \<lparr>loader = Some ''babel-loader!style-loader!css-loader'', loaders = None\<rparr> =
      Inr \<lparr>loader = None,
           loaders = Some [LString ''babel-loader'', LString ''fake-style-loader'',
                           LString ''css-loader'']\<rparr>"
proof (intro conjI impI)
  assume a: "(\<forall>l\<in>set pre. \<not> is_style_loader qs l) \<and> is_style_loader qs s"
  then show "replace_style_loader qs (pre @ s # post) =
        pre @ LString (stringify_loader qs
                 ((parse_loader qs s)\<lparr>name := ''fake-style-loader''\<rparr>)) # post"
    by (simp add: replace_style_loader_first)
  from a show "LString (stringify_loader qs
            ((parse_loader qs s)\<lparr>name := ''fake-style-loader''\<rparr>)) \<noteq> s"
    by (simp add: fake_style_loader_differs)
next
  assume "\<forall>l\<in>set chain. \<not> is_style_loader qs l"
  then show "replace_style_loader qs chain = chain"
    by (rule replace_style_loader_none)
next
  show "length (replace_style_loader qs chain) = length chain"
    by (rule length_replace_style_loader)
next
  show "js_split ''babel-loader!style-loader!css-loader'' CHR ''!'' =
        [''babel-loader'', ''style-loader'', ''css-loader'']"
    by simp
next
  show "configuration_loader qs
        \<lparr>loader = Some ''babel-loader!style-loader!css-loader'', loaders = None\<rparr> =
      Inr \<lparr>loader = None,
           loaders = Some [LString ''babel-loader'', LString ''fake-style-loader'',
                           LString ''css-loader'']\<rparr>"
    by (simp add: configuration_loader_def replace_style_loader_def is_style_loader_def
          parse_loader_string stringify_loader_def ends_with_def substring_take Let_def
          suffix_def)
qed

theorem C8_witness:
  "replace_style_loader node_querystring
      ([LString ''css-loader''] @ LString ''style'' # [LString ''style-loader'']) =
     [LString ''css-loader''] @ LString ''fake-style-loader'' # [LString ''style-loader'']
   \<and> replace_style_loader node_querystring [LString ''css-loader''] = [LString ''css-loader'']"
  using C8_first_style_loader_is_replaced
    [of "[LString ''css-loader'']" node_querystring "LString ''style''"
        "[LString ''style-loader'']" "[LString ''css-loader'']"]
  by (simp add: is_style_loader_def parse_loader_string stringify_loader_def ends_with_def
        substring_take Let_def suffix_def)

text \<open>
  C9, as stated, fails: an element that already has a \<open>loaders\<close> array with
  \<open>style-loader\<close> in it has that element of the array replaced.
\<close>

theorem C9_counterexample:
  "configuration_loader node_querystring
      \<lparr>loader = None, loaders = Some [LString ''style-loader'', LString ''css-loader'']\<rparr> =
     Inr \<lparr>loader = None,
          loaders = Some [LString ''fake-style-loader'', LString ''css-loader'']\<rparr>"
  by (simp add: configuration_loader_def replace_style_loader_def is_style_loader_def
        parse_loader_string stringify_loader_def ends_with_def substring_take Let_def
        suffix_def)

text \<open>
  C9, amended. An element that already has a \<open>loaders\<close> array never throws, keeps its
  \<open>loader\<close> field and every other field, and its array is not split; the array does
  go through the style loader substitution, so the element is returned unchanged
  exactly when no element of its array is a style loader.
\<close>

theorem C9_entry_with_chain:
  "loaders l = Some chain \<longrightarrow>
     configuration_loader qs l =
       Inr (l\<lparr>loaders := Some (replace_style_loader qs chain)\<rparr>)
     \<and> (configuration_loader qs l = Inr l \<longleftrightarrow>
          (\<forall>x\<in>set chain. \<not> is_style_loader qs x))"
proof
  assume c: "loaders l = Some chain"
  then have r: "configuration_loader qs l =
       Inr (l\<lparr>loaders := Some (replace_style_loader qs chain)\<rparr>)"
    by (simp add: configuration_loader_def)
  have "l\<lparr>loaders := Some (replace_style_loader qs chain)\<rparr> = l \<longleftrightarrow>
          replace_style_loader qs chain = chain"
  proof
    assume "l\<lparr>loaders := Some (replace_style_loader qs chain)\<rparr> = l"
    then have "loaders (l\<lparr>loaders := Some (replace_style_loader qs chain)\<rparr>) = loaders l"
      by simp
    with c show "replace_style_loader qs chain = chain"
      by simp
  next
    assume "replace_style_loader qs chain = chain"
    with c show "l\<lparr>loaders := Some (replace_style_loader qs chain)\<rparr> = l"
      by simp
  qed
  with r show "configuration_loader qs l =
       Inr (l\<lparr>loaders := Some (replace_style_loader qs chain)\<rparr>)
     \<and> (configuration_loader qs l = Inr l \<longleftrightarrow>
          (\<forall>x\<in>set chain. \<not> is_style_loader qs x))"
    by (simp add: replace_style_loader_unchanged_iff)
qed

theorem C9_witness:
  "configuration_loader node_querystring
      \<lparr>loader = None, loaders = Some [LString ''babel-loader'', LString ''css-loader?a!b'']\<rparr> =
     Inr \<lparr>loader = None,
          loaders = Some [LString ''babel-loader'', LString ''css-loader?a!b'']\<rparr>"
proof -
  let ?chain = "[LString ''babel-loader'', LString ''css-loader?a!b'']"
  let ?l = "\<lparr>loader = None, loaders = Some ?chain\<rparr>"
  have chain: "loaders ?l = Some ?chain"
    by simp
  have no_style: "\<forall>x\<in>set ?chain. \<not> is_style_loader node_querystring x"
    by (simp add: is_style_loader_def parse_loader_string ends_with_def substring_take
          Let_def suffix_def)
  from C9_entry_with_chain [of ?l ?chain node_querystring] chain
  have "configuration_loader node_querystring ?l = Inr ?l \<longleftrightarrow>
          (\<forall>x\<in>set ?chain. \<not> is_style_loader node_querystring x)"
    by blast
  with no_style show ?thesis
    by blast
qed

text \<open>
  C10, as stated, fails: an element whose \<open>loader\<close> string holds the marker and that
  also has a \<open>loaders\<close> array is not skipped, and a style loader in that array is
  replaced.
\<close>

theorem C10_counterexample:
  "configuration_loader node_querystring
      \<lparr>loader = Some ''/node_modules/extract-text-webpack-plugin/loader.js!css-loader'',
       loaders = Some [LString ''style-loader'']\<rparr> =
     Inr \<lparr>loader = Some ''/node_modules/extract-text-webpack-plugin/loader.js!css-loader'',
          loaders = Some [LString ''fake-style-loader'']\<rparr>"
  by (simp add: configuration_loader_def replace_style_loader_def is_style_loader_def
        parse_loader_string stringify_loader_def ends_with_def substring_take Let_def
        suffix_def)

text \<open>
  C10, amended. An element that has no \<open>loaders\<close> array and whose \<open>loader\<close> string
  contains \<open>extract-text-webpack-plugin/loader.js\<close> is returned as it is: it is not
  split into a chain, no field is removed, and no style loader is replaced.
\<close>

theorem C10_extract_text_entry_unchanged:
  "loaders l = None \<and> loader l = Some s \<and>
   (\<exists>before after. s = before @ ''extract-text-webpack-plugin/loader.js'' @ after)
   \<longrightarrow> configuration_loader qs l = Inr l"
proof
  assume a: "loaders l = None \<and> loader l = Some s \<and>
   (\<exists>before after. s = before @ ''extract-text-webpack-plugin/loader.js'' @ after)"
  then have "sublist ''extract-text-webpack-plugin/loader.js'' s"
    by (simp add: sublist_def)
  then have marker: "0 \<le> indexOf s ''extract-text-webpack-plugin/loader.js''"
    by (simp only: indexOf_sublist)
  from a have "s \<noteq> []"
    by auto
  with a marker show "configuration_loader qs l = Inr l"
    by (simp add: configuration_loader_def)
qed

theorem C10_witness:
  "configuration_loader node_querystring
      \<lparr>loader =
         Some ''/node_modules/extract-text-webpack-plugin/loader.js?{}!style-loader!css-loader'',
       loaders = None\<rparr> =
     Inr \<lparr>loader =
         Some ''/node_modules/extract-text-webpack-plugin/loader.js?{}!style-loader!css-loader'',
       loaders = None\<rparr>"
proof -
  have "\<exists>before after.
      ''/node_modules/extract-text-webpack-plugin/loader.js?{}!style-loader!css-loader'' =
      before @ ''extract-text-webpack-plugin/loader.js'' @ after"
    by (intro exI [of _ "''/node_modules/''"] exI [of _ "''?{}!style-loader!css-loader''"])
       simp
  then show ?thesis
    using C10_extract_text_entry_unchanged
      [of "\<lparr>loader =
         Some ''/node_modules/extract-text-webpack-plugin/loader.js?{}!style-loader!css-loader'',
       loaders = None\<rparr>"
          "''/node_modules/extract-text-webpack-plugin/loader.js?{}!style-loader!css-loader''"
          node_querystring]
    by simp
qed

end
